theory Spec2Isabelle
  imports Main
begin

section \<open>The directory backend of ixdat\<close>

text \<open>
  A shallow embedding of \<^verbatim>\<open>src/ixdat/backends/directory_backend.py\<close>: the two path
  helpers \<^verbatim>\<open>id_from_path\<close> and \<^verbatim>\<open>name_from_path\<close> and the class \<^verbatim>\<open>DirBackend\<close>.
  Python exceptions are values of the type \<open>error\<close>; a function that can raise returns
  \<open>error + 'a\<close>, and a method that writes returns its result together with the world it
  leaves behind (also when it raises: what was written before the exception stays).
\<close>

subsection \<open>Exceptions and values\<close>

datatype error =
    ValueError
  | TypeError
  | AttributeError
  | KeyError
  | FileNotFoundError
  | IsADirectoryError
  | DecodeError
    \<comment> \<open>\<^verbatim>\<open>json.load\<close> or \<^verbatim>\<open>np.load\<close> rejects the bytes of an existing file; whichever
        class the library raises then, it is not \<^verbatim>\<open>FileNotFoundError\<close>\<close>

type_synonym array = "int list"
  \<comment> \<open>a numeric payload; the backend never looks inside\<close>

datatype val = VNone | VInt int | VStr string | VArray array

type_synonym dict = "(string \<times> val) list"
  \<comment> \<open>a serialization \<^verbatim>\<open>obj.as_dict()\<close>: string keys, first binding of a key counts\<close>

subsection \<open>Strings: \<^verbatim>\<open>str.split("_")\<close>, \<^verbatim>\<open>int(str)\<close>, \<^verbatim>\<open>str(int)\<close>\<close>

fun split_us :: "string \<Rightarrow> string list" where
  "split_us [] = [[]]"
| "split_us (c # cs) =
     (if c = CHR ''_'' then [] # split_us cs
      else (case split_us cs of [] \<Rightarrow> [[c]] | t # ts \<Rightarrow> (c # t) # ts))"

definition is_space :: "char \<Rightarrow> bool" where
  \<comment> \<open>the code points below 256 that \<^verbatim>\<open>int()\<close> strips as white space: tab to
      carriage return, space, next line and no-break space\<close>
  "is_space c =
     (let n = (of_char c :: nat)
      in (9 \<le> n \<and> n \<le> 13) \<or> n = 32 \<or> n = 133 \<or> n = 160)"

definition is_digit :: "char \<Rightarrow> bool" where
  "is_digit c = (let n = (of_char c :: nat) in 48 \<le> n \<and> n \<le> 57)"

definition strip :: "string \<Rightarrow> string" where
  "strip s = rev (dropWhile is_space (rev (dropWhile is_space s)))"

definition digits_val :: "string \<Rightarrow> int" where
  "digits_val ds = foldl (\<lambda>acc c. 10 * acc + (int (of_char c) - 48)) 0 ds"

definition py_int :: "string \<Rightarrow> error + int" where
  \<comment> \<open>\<^verbatim>\<open>int(s)\<close> for a string without underscores (every caller passes a token of
      \<^verbatim>\<open>split("_")\<close>): white space stripped, an optional sign, then one or more decimal
      digits; anything else raises \<^verbatim>\<open>ValueError\<close>\<close>
  "py_int s =
     (let t = strip s;
          neg = (case t of [] \<Rightarrow> False | c # _ \<Rightarrow> c = CHR ''-'');
          ds = (case t of [] \<Rightarrow> []
                | c # r \<Rightarrow> if c = CHR ''-'' \<or> c = CHR ''+'' then r else t)
      in if ds \<noteq> [] \<and> list_all is_digit ds
         then Inr (if neg then - digits_val ds else digits_val ds)
         else Inl ValueError)"

fun str_nat :: "nat \<Rightarrow> string" where
  "str_nat n =
     (if n < 10 then [char_of (48 + n)]
      else str_nat (n div 10) @ [char_of (48 + n mod 10)])"

declare str_nat.simps [simp del]

definition str_int :: "int \<Rightarrow> string" where
  "str_int i = (if i < 0 then CHR ''-'' # str_nat (nat (- i)) else str_nat (nat i))"

definition ends_with :: "string \<Rightarrow> string \<Rightarrow> bool" where
  "ends_with sfx s = (length sfx \<le> length s \<and> drop (length s - length sfx) s = sfx)"

subsection \<open>Paths: \<^verbatim>\<open>pathlib.Path\<close>\<close>

type_synonym path = "string list"
  \<comment> \<open>the components of a path, outermost first; \<^verbatim>\<open>p / name\<close> appends one component\<close>

definition path_join :: "path \<Rightarrow> string \<Rightarrow> path" where
  "path_join p n = p @ [n]"

definition path_name :: "path \<Rightarrow> string" where
  "path_name p = (if p = [] then [] else last p)"

fun path_str :: "path \<Rightarrow> string" where
  "path_str [] = ''.''"
| "path_str [c] = c"
| "path_str (c # cs) = c @ ''/'' @ path_str cs"

definition rfind_dot :: "string \<Rightarrow> nat option" where
  \<comment> \<open>\<^verbatim>\<open>name.rfind(".")\<close>, with \<open>None\<close> for Python's \<open>-1\<close>\<close>
  "rfind_dot s =
     (if CHR ''.'' \<in> set s
      then Some (length s - 1 - length (takeWhile (\<lambda>c. c \<noteq> CHR ''.'') (rev s)))
      else None)"

definition name_suffix :: "string \<Rightarrow> string" where
  \<comment> \<open>\<^verbatim>\<open>Path.suffix\<close>: from the last dot on, unless that dot is first or last\<close>
  "name_suffix n =
     (case rfind_dot n of
        None \<Rightarrow> []
      | Some i \<Rightarrow> if 0 < i \<and> i < length n - 1 then drop i n else [])"

definition name_stem :: "string \<Rightarrow> string" where
  \<comment> \<open>\<^verbatim>\<open>Path.stem\<close>\<close>
  "name_stem n =
     (case rfind_dot n of
        None \<Rightarrow> n
      | Some i \<Rightarrow> if 0 < i \<and> i < length n - 1 then take i n else n)"

definition with_suffix :: "path \<Rightarrow> string \<Rightarrow> error + path" where
  \<comment> \<open>\<^verbatim>\<open>Path.with_suffix\<close>\<close>
  "with_suffix p sfx =
     (if CHR ''/'' \<in> set sfx then Inl ValueError
      else if (sfx \<noteq> [] \<and> hd sfx \<noteq> CHR ''.'') \<or> sfx = ''.'' then Inl ValueError
      else if path_name p = [] then Inl ValueError
      else let n = path_name p; old = name_suffix n
           in Inr (butlast p @ [take (length n - length old) n @ sfx]))"

subsection \<open>The path codec\<close>

definition id_from_path :: "path \<Rightarrow> error + int option" where
  \<comment> \<open>\<^verbatim>\<open>int(path.stem.split("_")[0])\<close>, Python's \<open>None\<close> on \<^verbatim>\<open>ValueError\<close>\<close>
  "id_from_path p =
     (case py_int (hd (split_us (name_stem (path_name p)))) of
        Inl e \<Rightarrow> if e = ValueError then Inr None else Inl e
      | Inr i \<Rightarrow> Inr (Some i))"

definition name_from_path :: "path \<Rightarrow> string" where
  \<comment> \<open>\<^verbatim>\<open>"".join(path.stem.split("_")[1:])\<close>\<close>
  "name_from_path p = concat (tl (split_us (name_stem (path_name p))))"

subsection \<open>The file system, the objects and the backends\<close>

text \<open>
  The world holds what the methods read and write. The attributes of the backend
  instances and of the saveable objects are kept by reference, so that two references
  to one object see the same attributes. Of the file system the world holds the table
  directories \<^verbatim>\<open>self.directory / table_name\<close> that exist, each with its entries in the
  order \<^verbatim>\<open>iterdir\<close> yields them; a file that is created goes to the end of that order.
  Table names and file names are single path components, and the root directory of a
  backend exists, so that \<^verbatim>\<open>mkdir\<close> of a table directory succeeds. What \<^verbatim>\<open>resolve\<close> and
  \<^verbatim>\<open>lstat\<close> give for the root directories is part of the world, and no write changes
  it. The serialization \<^verbatim>\<open>as_dict\<close> and the constructor \<^verbatim>\<open>from_dict\<close> belong to the
  object model outside this module: they are parameters, functions that read and
  may raise.
\<close>

datatype content = Json dict | Npy val | Partial
  \<comment> \<open>what a regular file holds: a document written by \<^verbatim>\<open>json.dump\<close>, a value written by
      \<^verbatim>\<open>np.save\<close>, or the bytes \<^verbatim>\<open>json.dump\<close> left behind when it raised\<close>

datatype node = Dir | File content

type_synonym entries = "(string \<times> node) list"
  \<comment> \<open>the entries of a directory by name, in the order \<^verbatim>\<open>iterdir\<close> yields them\<close>

type_synonym addr = nat

record DirBackend =
  directory :: path
  suffix :: string
  data_suffix :: string

record obj =
  table_name :: "string option"
    \<comment> \<open>\<open>None\<close>: the object has no attribute \<^verbatim>\<open>table_name\<close>\<close>
  type_str :: string
    \<comment> \<open>\<^verbatim>\<open>str(type(obj))\<close>\<close>
  name :: string
  ident :: "int option"
    \<comment> \<open>\<^verbatim>\<open>obj.id\<close>, \<open>None\<close> for Python's \<^verbatim>\<open>None\<close>\<close>
  backend :: "addr option"
    \<comment> \<open>\<^verbatim>\<open>obj.backend\<close>: a reference to a \<^verbatim>\<open>DirBackend\<close> instance, or \<^verbatim>\<open>None\<close>\<close>
  backend_name :: "string option"
  data_objects :: "addr list"
  has_data :: bool
    \<comment> \<open>\<^verbatim>\<open>hasattr(obj, "data")\<close>\<close>

record world =
  backends :: "addr \<Rightarrow> DirBackend"
    \<comment> \<open>the attributes of every backend instance, by reference\<close>
  objs :: "addr \<Rightarrow> obj"
    \<comment> \<open>the attributes of every saveable object, by reference\<close>
  fresh :: addr
    \<comment> \<open>the reference the next constructed object gets\<close>
  dirs :: "path \<rightharpoonup> entries"
    \<comment> \<open>the table directories that exist, with their entries\<close>
  canon :: "path \<Rightarrow> path"
    \<comment> \<open>\<^verbatim>\<open>Path.resolve()\<close>\<close>
  lstat :: "path \<rightharpoonup> nat"
    \<comment> \<open>\<^verbatim>\<open>Path.lstat()\<close> of a backend's root directory, \<open>None\<close> where it raises
        \<^verbatim>\<open>FileNotFoundError\<close>\<close>

record kind =
  kind_table_name :: "string option"
  from_dict :: "dict \<Rightarrow> error + obj"
    \<comment> \<open>the class a caller opens a row as: \<^verbatim>\<open>cls.table_name\<close> and \<^verbatim>\<open>cls.from_dict\<close>\<close>

record contract =
  as_dict :: "(addr \<Rightarrow> obj) \<Rightarrow> addr \<Rightarrow> error + dict"
    \<comment> \<open>\<^verbatim>\<open>obj.as_dict()\<close>, defined by the object model outside this module: it reads the
        objects and may raise\<close>
  array_str :: "array \<Rightarrow> string"
    \<comment> \<open>\<^verbatim>\<open>str()\<close> of a numeric array\<close>

definition py_str :: "contract \<Rightarrow> val \<Rightarrow> string" where
  "py_str K v =
     (case v of
        VNone \<Rightarrow> ''None''
      | VInt i \<Rightarrow> str_int i
      | VStr s \<Rightarrow> s
      | VArray a \<Rightarrow> array_str K a)"

definition backend_label :: "DirBackend \<Rightarrow> string" where
  \<comment> \<open>the property \<^verbatim>\<open>DirBackend.name\<close>\<close>
  "backend_label b = ''DirBackend('' @ path_str (directory b) @ '')''"

definition folder_of :: "world \<Rightarrow> addr \<Rightarrow> string \<Rightarrow> path" where
  \<comment> \<open>\<^verbatim>\<open>self.directory / table_name\<close>\<close>
  "folder_of w self t = path_join (directory (backends w self)) t"

definition dir_eq :: "world \<Rightarrow> addr \<Rightarrow> addr \<Rightarrow> error + bool" where
  \<comment> \<open>\<^verbatim>\<open>DirBackend.__eq__(self, other)\<close> for \<open>other\<close> a \<^verbatim>\<open>DirBackend\<close>\<close>
  "dir_eq w self other =
     (if other = self then Inr True
      else if canon w (directory (backends w other)) \<noteq> canon w (directory (backends w self))
      then Inr False
      else (case lstat w (directory (backends w other)) of
              None \<Rightarrow> Inl FileNotFoundError
            | Some so \<Rightarrow>
                (case lstat w (directory (backends w self)) of
                   None \<Rightarrow> Inl FileNotFoundError
                 | Some ss \<Rightarrow> Inr (so = ss))))"

definition bound_to :: "world \<Rightarrow> addr option \<Rightarrow> addr \<Rightarrow> error + bool" where
  \<comment> \<open>\<^verbatim>\<open>data_obj.backend == self\<close>: the left operand's \<^verbatim>\<open>__eq__\<close> runs when it is a
      \<^verbatim>\<open>DirBackend\<close>; for \<^verbatim>\<open>None\<close> the reflected call finds no \<^verbatim>\<open>directory\<close> attribute\<close>
  "bound_to w r self = (case r of None \<Rightarrow> Inr False | Some b \<Rightarrow> dir_eq w b self)"

subsection \<open>Scanning a table directory\<close>

fun collect_ids :: "entries \<Rightarrow> int list \<Rightarrow> error + int list" where
  \<comment> \<open>the loop of \<^verbatim>\<open>get_id_list\<close>: \<^verbatim>\<open>except TypeError: pass\<close> lets every other
      exception of \<^verbatim>\<open>int\<close> through\<close>
  "collect_ids [] id_list = Inr id_list"
| "collect_ids ((n, k) # es) id_list =
     (if k = Dir then collect_ids es id_list
      else (case py_int (hd (split_us n)) of
              Inl e \<Rightarrow> if e = TypeError then collect_ids es id_list else Inl e
            | Inr i \<Rightarrow> collect_ids es (id_list @ [i])))"

definition get_id_list :: "world \<Rightarrow> addr \<Rightarrow> string \<Rightarrow> error + int list" where
  "get_id_list w self t =
     (case dirs w (folder_of w self t) of
        None \<Rightarrow> Inl FileNotFoundError
      | Some es \<Rightarrow> collect_ids es [])"

definition py_max :: "int list \<Rightarrow> error + int" where
  \<comment> \<open>\<^verbatim>\<open>max(xs)\<close>: \<^verbatim>\<open>ValueError\<close> on the empty list\<close>
  "py_max xs = (case xs of [] \<Rightarrow> Inl ValueError | x # r \<Rightarrow> Inr (fold max r x))"

definition get_next_available_id :: "world \<Rightarrow> addr \<Rightarrow> string \<Rightarrow> error + int" where
  "get_next_available_id w self t =
     (case get_id_list w self t of
        Inl e \<Rightarrow> Inl e
      | Inr ids \<Rightarrow> (case py_max ids of Inl e \<Rightarrow> Inl e | Inr m \<Rightarrow> Inr (m + 1)))"

definition contains :: "world \<Rightarrow> addr \<Rightarrow> string \<Rightarrow> int option \<Rightarrow> error + bool" where
  \<comment> \<open>\<^verbatim>\<open>i in self.get_id_list(table_name)\<close>; \<open>i\<close> may be Python's \<^verbatim>\<open>None\<close>\<close>
  "contains w self t i =
     (case get_id_list w self t of
        Inl e \<Rightarrow> Inl e
      | Inr ids \<Rightarrow> Inr (case i of None \<Rightarrow> False | Some n \<Rightarrow> n \<in> set ids))"

fun first_row :: "path \<Rightarrow> string \<Rightarrow> int option \<Rightarrow> entries \<Rightarrow> error + path option" where
  \<comment> \<open>\<^verbatim>\<open>next(p for p in folder.iterdir() if id_from_path(p) == i and p.suffix == sfx)\<close>,
      \<open>None\<close> on \<^verbatim>\<open>StopIteration\<close>\<close>
  "first_row folder sfx i [] = Inr None"
| "first_row folder sfx i ((n, k) # es) =
     (case id_from_path (path_join folder n) of
        Inl e \<Rightarrow> Inl e
      | Inr j \<Rightarrow>
          if j = i \<and> name_suffix (path_name (path_join folder n)) = sfx
          then Inr (Some (path_join folder n))
          else first_row folder sfx i es)"

definition get_path_to_row :: "world \<Rightarrow> addr \<Rightarrow> string \<Rightarrow> int option \<Rightarrow> error + path option" where
  "get_path_to_row w self t i =
     (case dirs w (folder_of w self t) of
        None \<Rightarrow> Inl FileNotFoundError
      | Some es \<Rightarrow> first_row (folder_of w self t) (suffix (backends w self)) i es)"

subsection \<open>Writing and reading files\<close>

definition put_file :: "entries \<Rightarrow> string \<Rightarrow> content \<Rightarrow> entries" where
  \<comment> \<open>create the file, or replace what a file of that name held\<close>
  "put_file es n c =
     (case map_of es n of
        None \<Rightarrow> es @ [(n, File c)]
      | Some k \<Rightarrow> map (\<lambda>(m, k'). if m = n then (m, File c) else (m, k')) es)"

definition serializable :: "val \<Rightarrow> bool" where
  \<comment> \<open>what \<^verbatim>\<open>json.dump\<close> accepts: not a numeric array\<close>
  "serializable v = (case v of VArray a \<Rightarrow> False | _ \<Rightarrow> True)"

definition write_json :: "world \<Rightarrow> path \<Rightarrow> string \<Rightarrow> dict \<Rightarrow> (error + unit) \<times> world" where
  \<comment> \<open>\<^verbatim>\<open>with open(folder / file_name, "w") as f: json.dump(d, f)\<close>: the file is created or
      truncated before \<^verbatim>\<open>json.dump\<close> can raise \<^verbatim>\<open>TypeError\<close>\<close>
  "write_json w folder n d =
     (case dirs w folder of
        None \<Rightarrow> (Inl FileNotFoundError, w)
      | Some es \<Rightarrow>
          if map_of es n = Some Dir then (Inl IsADirectoryError, w)
          else if list_all (\<lambda>(k, v). serializable v) d
          then (Inr (), w\<lparr>dirs := (dirs w)(folder \<mapsto> put_file es n (Json d))\<rparr>)
          else (Inl TypeError, w\<lparr>dirs := (dirs w)(folder \<mapsto> put_file es n Partial)\<rparr>))"

definition np_save :: "world \<Rightarrow> path \<Rightarrow> string \<Rightarrow> val \<Rightarrow> (error + unit) \<times> world" where
  \<comment> \<open>\<^verbatim>\<open>np.save(folder / file_name, data)\<close>: numpy appends \<^verbatim>\<open>.npy\<close> to a name that does not
      end with it\<close>
  "np_save w folder n v =
     (let n' = (if ends_with ''.npy'' n then n else n @ ''.npy'')
      in case dirs w folder of
           None \<Rightarrow> (Inl FileNotFoundError, w)
         | Some es \<Rightarrow>
             if map_of es n' = Some Dir then (Inl IsADirectoryError, w)
             else (Inr (), w\<lparr>dirs := (dirs w)(folder \<mapsto> put_file es n' (Npy v))\<rparr>))"

definition lookup_file :: "world \<Rightarrow> path \<Rightarrow> error + content" where
  \<comment> \<open>opening the file at a path for reading\<close>
  "lookup_file w p =
     (case dirs w (butlast p) of
        None \<Rightarrow> Inl FileNotFoundError
      | Some es \<Rightarrow>
          (case map_of es (path_name p) of
             None \<Rightarrow> Inl FileNotFoundError
           | Some Dir \<Rightarrow> Inl IsADirectoryError
           | Some (File c) \<Rightarrow> Inr c))"

definition np_load :: "world \<Rightarrow> path \<Rightarrow> error + val" where
  \<comment> \<open>\<^verbatim>\<open>np.load(path)\<close>: with the default \<^verbatim>\<open>allow_pickle=False\<close> it reads back what
      \<^verbatim>\<open>np.save\<close> wrote, except the object array of \<^verbatim>\<open>None\<close>\<close>
  "np_load w p =
     (case lookup_file w p of
        Inl e \<Rightarrow> Inl e
      | Inr c \<Rightarrow>
          (case c of
             Npy v \<Rightarrow> if v = VNone then Inl DecodeError else Inr v
           | Json d \<Rightarrow> Inl DecodeError
           | Partial \<Rightarrow> Inl DecodeError))"

definition json_load :: "world \<Rightarrow> path \<Rightarrow> error + dict" where
  \<comment> \<open>\<^verbatim>\<open>with open(path, "r") as file: json.load(file)\<close>\<close>
  "json_load w p =
     (case lookup_file w p of
        Inl e \<Rightarrow> Inl e
      | Inr c \<Rightarrow>
          (case c of
             Json d \<Rightarrow> Inr d
           | Npy v \<Rightarrow> Inl DecodeError
           | Partial \<Rightarrow> Inl DecodeError))"

subsection \<open>The methods of \<^verbatim>\<open>DirBackend\<close> that write\<close>

definition builtin_id_str :: string where
  \<comment> \<open>\<^verbatim>\<open>str(id)\<close> of the built-in function \<^verbatim>\<open>id\<close>, the value \<^verbatim>\<open>add_row\<close> formats into
      the file name\<close>
  "builtin_id_str = ''<built-in function id>''"

definition set_id :: "addr \<Rightarrow> int option \<Rightarrow> world \<Rightarrow> world" where
  "set_id a i w = w\<lparr>objs := (objs w)(a := (objs w a)\<lparr>ident := i\<rparr>)\<rparr>"

definition set_backend :: "addr \<Rightarrow> addr option \<Rightarrow> world \<Rightarrow> world" where
  "set_backend a b w = w\<lparr>objs := (objs w)(a := (objs w a)\<lparr>backend := b\<rparr>)\<rparr>"

definition set_backend_name :: "addr \<Rightarrow> string option \<Rightarrow> world \<Rightarrow> world" where
  "set_backend_name a s w = w\<lparr>objs := (objs w)(a := (objs w a)\<lparr>backend_name := s\<rparr>)\<rparr>"

definition mkdir_if_missing :: "path \<Rightarrow> world \<Rightarrow> world" where
  \<comment> \<open>\<^verbatim>\<open>if not folder.exists(): folder.mkdir()\<close>, under a root directory that exists\<close>
  "mkdir_if_missing folder w =
     (if dirs w folder = None then w\<lparr>dirs := (dirs w)(folder \<mapsto> [])\<rparr> else w)"

definition add_row :: "contract \<Rightarrow> addr \<Rightarrow> dict \<Rightarrow> string \<Rightarrow> world \<Rightarrow> (error + int) \<times> world" where
  "add_row K self d t w =
     (let folder = folder_of w self t;
          w1 = mkdir_if_missing folder w
      in case get_next_available_id w1 self t of
           Inl e \<Rightarrow> (Inl e, w1)
         | Inr i \<Rightarrow>
             (case map_of d ''name'' of
                None \<Rightarrow> (Inl KeyError, w1)
              | Some nm \<Rightarrow>
                  let file_name =
                        builtin_id_str @ ''_'' @ py_str K nm @ ''.'' @ suffix (backends w1 self)
                  in (case write_json w1 folder file_name d of
                        (Inl e, w2) \<Rightarrow> (Inl e, w2)
                      | (Inr u, w2) \<Rightarrow> (Inr i, w2))))"

definition dict_set :: "dict \<Rightarrow> string \<Rightarrow> val \<Rightarrow> dict" where
  \<comment> \<open>\<^verbatim>\<open>d[k] = v\<close>\<close>
  "dict_set d k v =
     (case map_of d k of
        None \<Rightarrow> d @ [(k, v)]
      | Some old \<Rightarrow> map (\<lambda>(k', v'). if k' = k then (k', v) else (k', v')) d)"

definition already_saved :: "world \<Rightarrow> addr \<Rightarrow> addr \<Rightarrow> string \<Rightarrow> error + bool" where
  \<comment> \<open>\<^verbatim>\<open>data_obj.backend == self and self.contains(table_name, data_obj.id)\<close>\<close>
  "already_saved w self a t =
     (case bound_to w (backend (objs w a)) self of
        Inl e \<Rightarrow> Inl e
      | Inr b \<Rightarrow> if b then contains w self t (ident (objs w a)) else Inr False)"

definition save_data_obj :: "contract \<Rightarrow> addr \<Rightarrow> addr \<Rightarrow> world \<Rightarrow> (error + int option) \<times> world" where
  "save_data_obj K self a w =
     (case table_name (objs w a) of
        None \<Rightarrow> (Inl AttributeError, w)
      | Some t \<Rightarrow>
          (case already_saved w self a t of
             Inl e \<Rightarrow> (Inl e, w)
           | Inr dup \<Rightarrow>
               if dup then (Inr (ident (objs w a)), w)
               else
                 (case as_dict K (objs w) a of
                    Inl e \<Rightarrow> (Inl e, w)
                  | Inr d \<Rightarrow>
                      (case map_of d ''data'' of
                         None \<Rightarrow> (Inl KeyError, w)
                       | Some data \<Rightarrow>
                           (case add_row K self (dict_set d ''data'' VNone) t w of
                              (Inl e, w1) \<Rightarrow> (Inl e, w1)
                            | (Inr i, w1) \<Rightarrow>
                                let w2 = set_id a (Some i) w1;
                                    folder = folder_of w2 self t;
                                    w3 = set_backend a (Some self) w2;
                                    data_file_name =
                                      str_int i @ ''_'' @ name (objs w3 a) @ ''.''
                                        @ data_suffix (backends w3 self)
                                in (case np_save w3 folder data_file_name data of
                                      (Inl e, w4) \<Rightarrow> (Inl e, w4)
                                    | (Inr u, w4) \<Rightarrow> (Inr (ident (objs w4 a)), w4)))))))"

fun save_each :: "contract \<Rightarrow> addr \<Rightarrow> addr list \<Rightarrow> world \<Rightarrow> (error + unit) \<times> world" where
  \<comment> \<open>\<^verbatim>\<open>for data_obj in obj.data_objects: self.save_data_obj(data_obj)\<close>\<close>
  "save_each K self [] w = (Inr (), w)"
| "save_each K self (c # cs) w =
     (case save_data_obj K self c w of
        (Inl e, w1) \<Rightarrow> (Inl e, w1)
      | (Inr r, w1) \<Rightarrow> save_each K self cs w1)"

definition own_table :: "obj \<Rightarrow> string" where
  \<comment> \<open>\<^verbatim>\<open>obj.table_name\<close>, or \<^verbatim>\<open>str(type(obj))\<close> on \<^verbatim>\<open>AttributeError\<close>\<close>
  "own_table ob = (case table_name ob of None \<Rightarrow> type_str ob | Some t \<Rightarrow> t)"

definition save_own_row :: "contract \<Rightarrow> addr \<Rightarrow> addr \<Rightarrow> world \<Rightarrow> (error + int option) \<times> world" where
  \<comment> \<open>the body of \<^verbatim>\<open>save\<close> after the loop over the data objects\<close>
  "save_own_row K self a w =
     (let t = own_table (objs w a)
      in case as_dict K (objs w) a of
           Inl e \<Rightarrow> (Inl e, w)
         | Inr d \<Rightarrow>
             (case add_row K self d t w of
                (Inl e, w1) \<Rightarrow> (Inl e, w1)
              | (Inr i, w1) \<Rightarrow>
                  let w2 = set_id a (Some i) w1;
                      w3 = set_backend_name a (Some (backend_label (backends w2 self))) w2
                  in (Inr (ident (objs w3 a)), w3)))"

definition save :: "contract \<Rightarrow> addr \<Rightarrow> addr \<Rightarrow> world \<Rightarrow> (error + int option) \<times> world" where
  "save K self a w =
     (case (if data_objects (objs w a) \<noteq> []
            then save_each K self (data_objects (objs w a)) w
            else (Inr (), w)) of
        (Inl e, w1) \<Rightarrow> (Inl e, w1)
      | (Inr u, w1) \<Rightarrow> save_own_row K self a w1)"

subsection \<open>The methods that read\<close>

definition open_serialization :: "world \<Rightarrow> addr \<Rightarrow> string \<Rightarrow> int option \<Rightarrow> error + dict" where
  \<comment> \<open>\<^verbatim>\<open>open(None, "r")\<close> raises \<^verbatim>\<open>TypeError\<close>\<close>
  "open_serialization w self t i =
     (case get_path_to_row w self t i of
        Inl e \<Rightarrow> Inl e
      | Inr None \<Rightarrow> Inl TypeError
      | Inr (Some p) \<Rightarrow> json_load w p)"

definition open_obj :: "addr \<Rightarrow> kind \<Rightarrow> int option \<Rightarrow> world \<Rightarrow> (error + addr) \<times> world" where
  \<comment> \<open>the method \<^verbatim>\<open>open(cls, i)\<close>; the object \<^verbatim>\<open>cls.from_dict\<close> constructs gets a fresh
      reference\<close>
  "open_obj self cls i w =
     (case kind_table_name cls of
        None \<Rightarrow> (Inl AttributeError, w)
      | Some t \<Rightarrow>
          (case open_serialization w self t i of
             Inl e \<Rightarrow> (Inl e, w)
           | Inr d \<Rightarrow>
               (case from_dict cls d of
                  Inl e \<Rightarrow> (Inl e, w)
                | Inr ob \<Rightarrow>
                    let a = fresh w;
                        w1 = w\<lparr>objs := (objs w)(a := ob), fresh := Suc a\<rparr>
                    in (Inr a, set_backend a (Some self) w1))))"

definition load_obj_data :: "world \<Rightarrow> addr \<Rightarrow> addr \<Rightarrow> error + val option" where
  \<comment> \<open>\<open>Inr None\<close> is the bare \<^verbatim>\<open>return\<close>; only \<^verbatim>\<open>FileNotFoundError\<close> from inside the
      \<^verbatim>\<open>try\<close> is caught, and \<^verbatim>\<open>None.with_suffix\<close> raises \<^verbatim>\<open>AttributeError\<close>\<close>
  "load_obj_data w self a =
     (if \<not> has_data (objs w a) then Inr None
      else
        (case table_name (objs w a) of
           None \<Rightarrow> Inl AttributeError
         | Some t \<Rightarrow>
             (case get_path_to_row w self t (ident (objs w a)) of
                Inl e \<Rightarrow> Inl e
              | Inr None \<Rightarrow> Inl AttributeError
              | Inr (Some p) \<Rightarrow>
                  (case with_suffix p (data_suffix (backends w self)) of
                     Inl e \<Rightarrow> Inl e
                   | Inr q \<Rightarrow>
                       (case np_load w q of
                          Inl e \<Rightarrow> if e = FileNotFoundError then Inr None else Inl e
                        | Inr v \<Rightarrow> Inr (Some v))))))"

subsection \<open>The public interface\<close>

datatype call =
    Save addr
  | Open kind "int option"
  | Contains string "int option"
  | LoadObjData addr
  | SaveDataObj addr

datatype ret = RId "int option" | RObj addr | RBool bool | RData "val option"

definition run :: "contract \<Rightarrow> addr \<Rightarrow> call \<Rightarrow> world \<Rightarrow> (error + ret) \<times> world" where
  \<comment> \<open>one call of a public method on the backend \<open>self\<close>, with the world it leaves\<close>
  "run K self c w =
     (case c of
        Save a \<Rightarrow> (case save K self a w of (r, w') \<Rightarrow> (map_sum id RId r, w'))
      | Open cls i \<Rightarrow> (case open_obj self cls i w of (r, w') \<Rightarrow> (map_sum id RObj r, w'))
      | Contains t i \<Rightarrow> (map_sum id RBool (contains w self t i), w)
      | LoadObjData a \<Rightarrow> (map_sum id RData (load_obj_data w self a), w)
      | SaveDataObj a \<Rightarrow> (case save_data_obj K self a w of (r, w') \<Rightarrow> (map_sum id RId r, w')))"

subsection \<open>Notions used in the statements\<close>

definition names_id :: "int \<Rightarrow> string \<times> node \<Rightarrow> bool" where
  \<comment> \<open>an entry that is not a directory and whose file name starts with the token of \<open>i\<close>\<close>
  "names_id i e = (snd e \<noteq> Dir \<and> py_int (hd (split_us (fst e))) = Inr i)"

definition scannable :: "entries \<Rightarrow> bool" where
  \<comment> \<open>every entry that is not a directory has a leading token \<^verbatim>\<open>int\<close> accepts\<close>
  "scannable es =
     list_all (\<lambda>e. snd e = Dir \<or> (case py_int (hd (split_us (fst e))) of
                                     Inl x \<Rightarrow> False | Inr i \<Rightarrow> True)) es"

inductive saved_in_order :: "contract \<Rightarrow> addr \<Rightarrow> addr list \<Rightarrow> world \<Rightarrow> world \<Rightarrow> bool" where
  \<comment> \<open>the data objects of a list are saved one after the other, first to last, each by a
      call of \<^verbatim>\<open>save_data_obj\<close> that returns, each in the world its predecessor left\<close>
  in_order_nil: "saved_in_order K self [] w w"
| in_order_cons: "save_data_obj K self c w = (Inr r, w1) \<Longrightarrow> saved_in_order K self cs w1 w2
         \<Longrightarrow> saved_in_order K self (c # cs) w w2"

subsection \<open>An example store\<close>

definition ex_store :: "string \<Rightarrow> string \<Rightarrow> DirBackend" where
  "ex_store sfx dsfx = \<lparr>directory = [''data''], suffix = sfx, data_suffix = dsfx\<rparr>"

definition ex_contract :: contract where
  \<comment> \<open>an object model whose serialization holds the name, the payload of an object that
      has one, and the identifier of the first data object\<close>
  "ex_contract =
     \<lparr>as_dict = (\<lambda>h a. Inr
        [(''name'', VStr (name (h a))),
         (''data'', if has_data (h a) then VArray [1, 2, 3] else VNone),
         (''first_data_id'',
            case data_objects (h a) of
              [] \<Rightarrow> VNone
            | c # cs \<Rightarrow> (case ident (h c) of None \<Rightarrow> VNone | Some i \<Rightarrow> VInt i))]),
      array_str = (\<lambda>a. ''[1 2 3]'')\<rparr>"

definition ex_measurement :: obj where
  "ex_measurement =
     \<lparr>table_name = Some ''measurement'', type_str = ''<class Measurement>'',
      name = ''beta'', ident = None, backend = None, backend_name = None,
      data_objects = [1], has_data = False\<rparr>"

definition ex_series :: obj where
  "ex_series =
     \<lparr>table_name = Some ''series'', type_str = ''<class DataSeries>'',
      name = ''t'', ident = None, backend = None, backend_name = None,
      data_objects = [], has_data = True\<rparr>"

definition ex_world :: "string \<Rightarrow> string \<Rightarrow> world" where
  \<comment> \<open>one backend (reference 0) over \<^verbatim>\<open>data/\<close>, a measurement (reference 0) that owns a
      series (reference 1), both unsaved, and one row in each of their tables\<close>
  "ex_world sfx dsfx =
     \<lparr>backends = (\<lambda>b. ex_store sfx dsfx),
      objs = (\<lambda>a. if a = 0 then ex_measurement else ex_series),
      fresh = 2,
      dirs = [[''data'', ''measurement''] \<mapsto> [(''0_alpha.meta'', File (Json []))],
              [''data'', ''series''] \<mapsto> [(''0_s.meta'', File (Json []))]],
      canon = (\<lambda>p. p),
      lstat = (\<lambda>p. if p = [''data''] then Some 7 else None)\<rparr>"

definition ex_saved_world :: world where
  \<comment> \<open>the example store with suffixes \<^verbatim>\<open>.meta\<close> and \<^verbatim>\<open>.npy\<close>, its series bound to the
      backend under the identifier of the row its table holds\<close>
  "ex_saved_world =
     (ex_world ''.meta'' ''.npy'')
       \<lparr>objs := (\<lambda>a. if a = 0 then ex_measurement
                    else ex_series\<lparr>ident := Some 0, backend := Some 0\<rparr>)\<rparr>"

definition ex_payload_world :: world where
  \<comment> \<open>the example store with a series table that holds one payload file and no
      metadata file\<close>
  "ex_payload_world =
     (ex_world ''.meta'' ''.npy'')
       \<lparr>dirs := [[''data'', ''series''] \<mapsto> [(''3_t.npy'', File (Npy (VArray [1, 2, 3])))]]\<rparr>"

definition ex_values :: obj where
  \<comment> \<open>a value series that refers to the time series (reference 1) as its first data
      object, so that its serialization holds the identifier of the time series\<close>
  "ex_values =
     \<lparr>table_name = Some ''values'', type_str = ''<class ValueSeries>'',
      name = ''v'', ident = None, backend = None, backend_name = None,
      data_objects = [1], has_data = True\<rparr>"

definition ex_world2 :: world where
  \<comment> \<open>one backend (reference 0) over \<^verbatim>\<open>data/\<close>; a measurement (reference 0) that owns
      the time series (reference 1) and the value series (reference 2), in this order;
      all three unsaved, and one row in each of their tables\<close>
  "ex_world2 =
     \<lparr>backends = (\<lambda>b. ex_store ''meta'' ''npy''),
      objs = (\<lambda>a. if a = 0 then ex_measurement\<lparr>data_objects := [1, 2]\<rparr>
                   else if a = 1 then ex_series else ex_values),
      fresh = 3,
      dirs = [[''data'', ''measurement''] \<mapsto> [(''0_alpha.meta'', File (Json []))],
              [''data'', ''series''] \<mapsto> [(''0_s.meta'', File (Json []))],
              [''data'', ''values''] \<mapsto> [(''0_u.meta'', File (Json []))]],
      canon = (\<lambda>p. p),
      lstat = (\<lambda>p. if p = [''data''] then Some 7 else None)\<rparr>"

section \<open>Properties\<close>

lemmas ex_defs = ex_world_def ex_store_def ex_contract_def ex_measurement_def ex_series_def
lemmas int_defs = py_int_def strip_def is_space_def is_digit_def digits_val_def
lemmas scan_defs = get_next_available_id_def get_id_list_def folder_of_def path_join_def py_max_def
lemmas name_defs = path_name_def name_stem_def name_suffix_def rfind_dot_def

subsection \<open>Tokens and file names\<close>

text \<open>\<^verbatim>\<open>split\<close> never returns the empty list, so \<^verbatim>\<open>[0]\<close> on its result is \<open>hd\<close>.\<close>

lemma split_us_nonempty: "split_us s \<noteq> []"
  by (induction s) (auto split: list.splits)

lemma py_int_error: "py_int s = Inl e \<Longrightarrow> e = ValueError"
  by (auto simp: py_int_def Let_def split: if_splits)

lemma id_from_path_total: "\<exists>r. id_from_path p = Inr r"
  by (auto simp: id_from_path_def split: sum.splits dest: py_int_error)

text \<open>The separators 28 to 31 are not white space to \<^verbatim>\<open>int\<close>.\<close>

lemma py_int_unit_separator: "py_int (char_of (31::nat) # ''7'') = Inl ValueError"
  by code_simp

lemma py_int_builtin: "py_int builtin_id_str = Inl ValueError"
  by (simp add: builtin_id_str_def int_defs)

lemma hd_split_builtin: "hd (split_us (builtin_id_str @ ''_'' @ s)) = builtin_id_str"
  using split_us_nonempty [of s]
  by (simp add: builtin_id_str_def split: list.splits)

lemma map_of_put_file: "map_of (put_file es n c) n = Some (File c)"
proof (cases "map_of es n")
  case None
  then show ?thesis by (simp add: put_file_def map_add_def)
next
  case (Some k)
  have "map_of es n = Some k \<Longrightarrow>
    map_of (map (\<lambda>(m, k'). if m = n then (m, File c) else (m, k')) es) n = Some (File c)"
    by (induction es) (auto split: if_splits)
  with Some show ?thesis by (simp add: put_file_def)
qed

text \<open>
  Whatever identifier \<^verbatim>\<open>add_row\<close> returns, the file it writes is named after the
  built-in function \<^verbatim>\<open>id\<close>: the name is formatted from \<^verbatim>\<open>id\<close>, not from \<^verbatim>\<open>i\<close>.
\<close>

lemma add_row_file_name:
  assumes "add_row K self d t w = (Inr i, w')"
  shows "\<exists>nm es. map_of d ''name'' = Some nm \<and> dirs w' (folder_of w self t) = Some es \<and>
           map_of es (builtin_id_str @ ''_'' @ py_str K nm @ ''.'' @ suffix (backends w self))
             = Some (File (Json d))"
  using assms
  by (auto simp: add_row_def Let_def write_json_def folder_of_def mkdir_if_missing_def
        map_of_put_file
      split: sum.splits option.splits prod.splits if_splits)

text \<open>
  Claim C1: the metadata file of a saved object is named \<^verbatim>\<open>{id}_{display_name}.{ext}\<close>
  with the identifier \<^verbatim>\<open>add_row\<close> allocated and returned as its leading token.
  The code does not do this. In the example store, whose measurement table holds the
  row \<^verbatim>\<open>0_alpha.meta\<close>, adding a row named \<^verbatim>\<open>beta\<close> returns the identifier 1 and writes
  the file \<^verbatim>\<open><built-in function id>_beta.meta\<close>, whose leading token decodes to no
  identifier at all.
\<close>

theorem add_row_names_file_after_builtin:
  "fst (add_row K 0 [(''name'', VStr ''beta'')] ''measurement'' (ex_world ''meta'' ''npy''))
     = Inr 1
   \<and> dirs (snd (add_row K 0 [(''name'', VStr ''beta'')] ''measurement''
              (ex_world ''meta'' ''npy''))) [''data'', ''measurement'']
     = Some [(''0_alpha.meta'', File (Json [])),
             (''<built-in function id>_beta.meta'', File (Json [(''name'', VStr ''beta'')]))]
   \<and> id_from_path [''data'', ''measurement'', ''<built-in function id>_beta.meta''] = Inr None"
  by (simp add: add_row_def ex_defs int_defs scan_defs mkdir_if_missing_def py_str_def
      write_json_def serializable_def put_file_def builtin_id_str_def id_from_path_def name_defs)

subsection \<open>Enumerating a table\<close>

text \<open>
  Claim C2: the next available identifier of a table with no valid rows is a fixed seed
  value, and no error surfaces. The code has no seed: on an empty table directory
  \<^verbatim>\<open>max\<close> of the empty list raises \<^verbatim>\<open>ValueError\<close>, and \<^verbatim>\<open>add_row\<close> on a table that does
  not exist yet creates the directory and then raises the same error.
\<close>

theorem next_id_of_empty_table_raises:
  "get_next_available_id (w\<lparr>dirs := (dirs w)(folder_of w self t \<mapsto> [])\<rparr>) self t
     = Inl ValueError
   \<and> fst (add_row K self d t (w\<lparr>dirs := (dirs w)(folder_of w self t := None)\<rparr>))
     = Inl ValueError
   \<and> dirs (snd (add_row K self d t (w\<lparr>dirs := (dirs w)(folder_of w self t := None)\<rparr>)))
       (folder_of w self t) = Some []"
  by (simp add: add_row_def scan_defs mkdir_if_missing_def)

text \<open>
  Claim C3: a table directory holding a file whose leading token is not an integer,
  such as \<^verbatim>\<open>notanumber_foo.meta\<close>, is enumerated without error, the file left out.
  The code catches \<^verbatim>\<open>TypeError\<close> where \<^verbatim>\<open>int\<close> raises \<^verbatim>\<open>ValueError\<close>: enumerating
  such a directory raises, and so does \<^verbatim>\<open>contains\<close>.
\<close>

theorem get_id_list_malformed_name_raises:
  "get_id_list
     (w\<lparr>dirs := (dirs w)(folder_of w self t \<mapsto> [(''notanumber_foo.meta'', File c)])\<rparr>) self t
     = Inl ValueError
   \<and> contains
     (w\<lparr>dirs := (dirs w)(folder_of w self t \<mapsto> [(''notanumber_foo.meta'', File c)])\<rparr>) self t i
     = Inl ValueError"
  by (simp add: contains_def get_id_list_def folder_of_def int_defs)

subsection \<open>Decoding the display name\<close>

text \<open>
  Claim C8: decoding the display name of a stem \<^verbatim>\<open>{id}_{t1}_{t2}_...\<close> rejoins the
  tokens after the first with an underscore, so that \<^verbatim>\<open>7_a_b\<close> decodes to \<^verbatim>\<open>a_b\<close>, and
  gives the empty string when no token follows the identifier. The code joins the
  tokens with the empty string: \<^verbatim>\<open>7_a_b\<close> decodes to \<^verbatim>\<open>ab\<close>. The empty-name case is as
  claimed.
\<close>

theorem name_from_path_drops_underscores:
  "name_from_path [''data'', ''series'', ''7_a_b.meta''] = ''ab''
   \<and> name_from_path [''7_a_b''] = ''ab''
   \<and> name_from_path [''7''] = []"
  by (simp add: name_from_path_def name_defs)

subsection \<open>Loading the payload\<close>

lemma load_obj_data_no_data: "\<not> has_data (objs w a) \<Longrightarrow> load_obj_data w self a = Inr None"
  by (simp add: load_obj_data_def)

lemma load_obj_data_payload_missing:
  assumes "has_data (objs w a)" and "table_name (objs w a) = Some t"
    and "get_path_to_row w self t (ident (objs w a)) = Inr (Some p)"
    and "with_suffix p (data_suffix (backends w self)) = Inr q"
    and "lookup_file w q = Inl FileNotFoundError"
  shows "load_obj_data w self a = Inr None"
  using assms by (simp add: load_obj_data_def np_load_def)

text \<open>
  Claim C9: \<^verbatim>\<open>load_obj_data\<close> returns absent, without touching the file system, for an
  object with no data attribute, and returns absent rather than raising for an object
  with a data attribute whose payload file is missing, objects that were never saved
  included. The two lemmas above are the part the code does: no data attribute, and a
  metadata row without its payload file. For an object that was never saved the code
  raises: the series of the example store has no row, so the row path is \<^verbatim>\<open>None\<close> and
  \<^verbatim>\<open>None.with_suffix\<close> raises \<^verbatim>\<open>AttributeError\<close>; where its table directory does not
  exist either, the scan raises \<^verbatim>\<open>FileNotFoundError\<close> outside the \<^verbatim>\<open>try\<close>.
\<close>

theorem load_obj_data_unsaved_raises:
  "load_obj_data (ex_world ''.meta'' ''.npy'') 0 1 = Inl AttributeError
   \<and> load_obj_data ((ex_world ''.meta'' ''.npy'')\<lparr>dirs := Map.empty\<rparr>) 0 1
     = Inl FileNotFoundError"
  by (simp add: load_obj_data_def ex_defs get_path_to_row_def folder_of_def path_join_def
      id_from_path_def int_defs name_defs)

subsection \<open>What a call leaves of the backend\<close>

lemma write_json_frame:
  assumes "write_json w f n d = (r, w')"
  shows "backends w' = backends w" and "objs w' = objs w" and "fresh w' = fresh w"
  using assms by (auto simp: write_json_def split: option.splits if_splits)

lemma np_save_frame:
  assumes "np_save w f n v = (r, w')"
  shows "backends w' = backends w" and "objs w' = objs w" and "fresh w' = fresh w"
  using assms by (auto simp: np_save_def Let_def split: option.splits if_splits)

lemma mkdir_frame:
  "backends (mkdir_if_missing f w) = backends w"
  "objs (mkdir_if_missing f w) = objs w"
  "fresh (mkdir_if_missing f w) = fresh w"
  by (simp_all add: mkdir_if_missing_def)

lemma add_row_frame:
  assumes "add_row K self d t w = (r, w')"
  shows "backends w' = backends w" and "objs w' = objs w" and "fresh w' = fresh w"
  using assms
  by (auto simp: add_row_def Let_def mkdir_frame
      split: sum.splits option.splits prod.splits dest: write_json_frame)

lemma set_frame:
  "backends (set_id a i w) = backends w"
  "backends (set_backend a b w) = backends w"
  "backends (set_backend_name a s w) = backends w"
  by (simp_all add: set_id_def set_backend_def set_backend_name_def)

lemma save_data_obj_backends:
  assumes "save_data_obj K self a w = (r, w')"
  shows "backends w' = backends w"
  using assms
  by (auto simp: save_data_obj_def Let_def set_frame
      split: sum.splits option.splits prod.splits if_splits
      dest!: add_row_frame(1) np_save_frame(1))

lemma save_each_backends:
  "save_each K self cs w = (r, w') \<Longrightarrow> backends w' = backends w"
proof (induction cs arbitrary: w)
  case Nil
  then show ?case by simp
next
  case (Cons c cs)
  then show ?case
    by (auto split: prod.splits sum.splits dest: save_data_obj_backends)
qed

lemma save_own_row_backends:
  assumes "save_own_row K self a w = (r, w')"
  shows "backends w' = backends w"
  using assms
  by (auto simp: save_own_row_def Let_def set_frame
      split: sum.splits option.splits prod.splits if_splits
      dest!: add_row_frame(1))

lemma save_backends:
  assumes "save K self a w = (r, w')"
  shows "backends w' = backends w"
  using assms
  by (auto simp: save_def split: sum.splits prod.splits if_splits
      dest!: save_each_backends save_own_row_backends)

lemma open_obj_backends:
  assumes "open_obj self cls i w = (r, w')"
  shows "backends w' = backends w"
  using assms
  by (auto simp: open_obj_def Let_def set_frame split: sum.splits option.splits)

text \<open>
  Claim C10: every public operation of the store (\<^verbatim>\<open>save\<close>, \<^verbatim>\<open>open\<close>, \<^verbatim>\<open>contains\<close>,
  \<^verbatim>\<open>load_obj_data\<close>, \<^verbatim>\<open>save_data_obj\<close>) leaves the configuration of the backend as it
  was: directory, metadata suffix and data suffix are the same after the call as
  before, whether the call returns or raises. The attributes of every backend
  instance are part of the world, and no call changes any of them.
\<close>

theorem run_keeps_backends: "backends (snd (run K self c w)) = backends w"
  by (cases c)
    (auto simp: run_def split: prod.splits
      dest: save_backends open_obj_backends save_data_obj_backends)

subsection \<open>Membership in a table\<close>

lemma collect_ids_Inr:
  "collect_ids es acc = Inr ids \<Longrightarrow>
     scannable es \<and> set ids = set acc \<union> {i. \<exists>e\<in>set es. names_id i e}"
proof (induction es arbitrary: acc)
  case Nil
  then show ?case by (simp add: scannable_def)
next
  case (Cons e es)
  obtain n k where e: "e = (n, k)" by (cases e)
  show ?case
  proof (cases "k = Dir")
    case True
    with Cons.prems e have "collect_ids es acc = Inr ids" by simp
    from Cons.IH [OF this] True e show ?thesis
      by (auto simp: scannable_def names_id_def)
  next
    case False
    show ?thesis
    proof (cases "py_int (hd (split_us n))")
      case (Inl x)
      with Cons.prems e False show ?thesis
        by (auto dest: py_int_error)
    next
      case (Inr i)
      with Cons.prems e False have "collect_ids es (acc @ [i]) = Inr ids" by simp
      from Cons.IH [OF this] False e Inr show ?thesis
        by (auto simp: scannable_def names_id_def)
    qed
  qed
qed

lemma collect_ids_scannable:
  "scannable es \<Longrightarrow> \<exists>ids. collect_ids es acc = Inr ids"
proof (induction es arbitrary: acc)
  case Nil
  then show ?case by simp
next
  case (Cons e es)
  obtain n k where e: "e = (n, k)" by (cases e)
  from Cons.prems have s: "scannable es" by (simp add: scannable_def)
  show ?case
  proof (cases "k = Dir")
    case True
    with e Cons.IH [OF s] show ?thesis by simp
  next
    case False
    with Cons.prems e obtain i where "py_int (hd (split_us n)) = Inr i"
      by (auto simp: scannable_def split: sum.splits)
    with e False Cons.IH [OF s] show ?thesis by simp
  qed
qed

text \<open>
  Claim C6: \<^verbatim>\<open>contains(table, id)\<close> is true if and only if \<^verbatim>\<open>find_row\<close> succeeds, that is,
  if and only if the table directory holds a file whose decoded leading token is the
  identifier and whose extension is the metadata extension. The code does not go
  through the row lookup: \<^verbatim>\<open>contains\<close> is membership in \<^verbatim>\<open>get_id_list\<close>, which looks at no
  extension. A table that holds the payload file \<^verbatim>\<open>3_t.npy\<close> and no metadata file
  contains 3, and \<^verbatim>\<open>get_path_to_row\<close> finds no row for 3.
\<close>

theorem contains_without_row:
  "contains ex_payload_world 0 ''series'' (Some 3) = Inr True
   \<and> get_path_to_row ex_payload_world 0 ''series'' (Some 3) = Inr None"
  by (simp add: ex_payload_world_def contains_def get_id_list_def get_path_to_row_def
      folder_of_def path_join_def ex_defs int_defs id_from_path_def name_defs)

text \<open>
  Claim C6 as amended: for every table whose directory exists and in which the leading
  token of the file name of every entry that is not a directory is an integer,
  \<^verbatim>\<open>contains(table, id)\<close> returns true if and only if the leading token of the file name
  of some such entry is the identifier, whatever the extension of the file. What
  \<^verbatim>\<open>contains\<close> does on other directories is left open here.
\<close>

theorem contains_iff_id_listed:
  assumes "dirs w (folder_of w self t) = Some es" and "scannable es"
  shows "contains w self t (Some i) = Inr (\<exists>e\<in>set es. names_id i e)"
proof -
  from assms(2) obtain ids where c: "collect_ids es [] = Inr ids"
    using collect_ids_scannable by blast
  from collect_ids_Inr [OF c] have "i \<in> set ids \<longleftrightarrow> (\<exists>e\<in>set es. names_id i e)"
    by auto
  with assms(1) c show ?thesis by (simp add: contains_def get_id_list_def)
qed

theorem contains_iff_id_listed_witness:
  "dirs ex_saved_world (folder_of ex_saved_world 0 ''series'')
     = Some [(''0_s.meta'', File (Json []))]
   \<and> scannable [(''0_s.meta'', File (Json []))]
   \<and> contains ex_saved_world 0 ''series'' (Some 0) = Inr True
   \<and> contains ex_saved_world 0 ''series'' (Some 5) = Inr False"
proof -
  have d: "dirs ex_saved_world (folder_of ex_saved_world 0 ''series'')
     = Some [(''0_s.meta'', File (Json []))]"
    by (simp add: ex_saved_world_def ex_defs folder_of_def path_join_def)
  have s: "scannable [(''0_s.meta'', File (Json []))]"
    by (simp add: scannable_def int_defs)
  have n: "names_id 0 (''0_s.meta'', File (Json []))"
    "\<not> names_id 5 (''0_s.meta'', File (Json []))"
    by (simp_all add: names_id_def int_defs)
  from contains_iff_id_listed [OF d s, of 0] contains_iff_id_listed [OF d s, of 5] d s n
  show ?thesis by simp
qed

subsection \<open>Saving a data object again\<close>

lemma contains_True_id: "contains w self t i = Inr True \<Longrightarrow> \<exists>n. i = Some n"
  by (auto simp: contains_def split: sum.splits option.splits)

text \<open>
  The branch of \<^verbatim>\<open>save_data_obj\<close> for an object that is bound to this store and whose
  identifier the table contains: it returns the identifier and leaves the world as it
  was.
\<close>

lemma save_data_obj_dedup:
  assumes "table_name (objs w a) = Some t"
    and "bound_to w (backend (objs w a)) self = Inr True"
    and "contains w self t (ident (objs w a)) = Inr True"
  shows "\<exists>i. ident (objs w a) = Some i \<and> save_data_obj K self a w = (Inr (Some i), w)"
proof -
  from assms(3) obtain i where i: "ident (objs w a) = Some i"
    by (auto dest: contains_True_id)
  from assms i have "save_data_obj K self a w = (Inr (Some i), w)"
    by (simp add: save_data_obj_def already_saved_def)
  with i show ?thesis by simp
qed

lemma ex_dedup:
  "save_data_obj ex_contract 0 1 ex_saved_world = (Inr (Some 0), ex_saved_world)"
proof -
  have t: "table_name (objs ex_saved_world 1) = Some ''series''"
    by (simp add: ex_saved_world_def ex_defs)
  have b: "bound_to ex_saved_world (backend (objs ex_saved_world 1)) 0 = Inr True"
    by (simp add: ex_saved_world_def ex_defs bound_to_def dir_eq_def)
  have c: "contains ex_saved_world 0 ''series'' (ident (objs ex_saved_world 1)) = Inr True"
    by (simp add: ex_saved_world_def ex_defs contains_def scan_defs int_defs)
  have i: "ident (objs ex_saved_world 1) = Some 0"
    by (simp add: ex_saved_world_def ex_defs)
  from save_data_obj_dedup [OF t b c, of ex_contract] i show ?thesis by simp
qed

subsection \<open>What saving does to the objects\<close>

lemma set_objs:
  "objs (set_id a i w) = (objs w)(a := (objs w a)\<lparr>ident := i\<rparr>)"
  "objs (set_backend a b w) = (objs w)(a := (objs w a)\<lparr>backend := b\<rparr>)"
  "objs (set_backend_name a s w) = (objs w)(a := (objs w a)\<lparr>backend_name := s\<rparr>)"
  by (simp_all add: set_id_def set_backend_def set_backend_name_def)

lemma add_row_keeps:
  assumes "add_row K self d t w = (r, w')"
  shows "backends w' = backends w \<and> objs w' = objs w"
  using assms by (simp add: add_row_frame)

lemma save_data_obj_other:
  assumes "save_data_obj K self a w = (r, w')" and "x \<noteq> a"
  shows "objs w' x = objs w x"
  using assms
  by (auto simp: save_data_obj_def Let_def set_objs
      split: sum.splits option.splits prod.splits if_splits
      dest!: add_row_frame(2) np_save_frame(2))

lemma save_data_obj_ident:
  assumes "save_data_obj K self a w = (Inr r, w')"
  shows "\<exists>i. r = Some i \<and> ident (objs w' a) = Some i"
  using assms
  by (auto simp: save_data_obj_def Let_def set_objs already_saved_def
      split: sum.splits option.splits prod.splits if_splits
      dest!: add_row_frame(2) np_save_frame(2) contains_True_id)

lemma save_data_obj_keeps_ids:
  assumes "save_data_obj K self a w = (r, w')" and "ident (objs w x) \<noteq> None"
  shows "ident (objs w' x) \<noteq> None"
  using assms
  by (auto simp: save_data_obj_def Let_def set_objs
      split: sum.splits option.splits prod.splits if_splits
      dest!: add_row_frame(2) np_save_frame(2))

text \<open>The loop touches only the objects it saves.\<close>

lemma save_each_other:
  "save_each K self cs w = (r, w') \<Longrightarrow> x \<notin> set cs \<Longrightarrow> objs w' x = objs w x"
proof (induction cs arbitrary: w)
  case Nil
  then show ?case by simp
next
  case (Cons c cs)
  obtain r1 w1 where s: "save_data_obj K self c w = (r1, w1)"
    by (cases "save_data_obj K self c w")
  with Cons.prems have o: "objs w1 x = objs w x" by (auto dest: save_data_obj_other)
  show ?case
  proof (cases r1)
    case (Inl e)
    with s Cons.prems o show ?thesis by simp
  next
    case (Inr v)
    with s Cons.prems have "save_each K self cs w1 = (r, w')" by simp
    with Cons.IH Cons.prems have "objs w' x = objs w1 x" by simp
    with o show ?thesis by simp
  qed
qed

lemma save_each_keeps_ids:
  "save_each K self cs w = (r, w') \<Longrightarrow> ident (objs w x) \<noteq> None
     \<Longrightarrow> ident (objs w' x) \<noteq> None"
proof (induction cs arbitrary: w)
  case Nil
  then show ?case by simp
next
  case (Cons c cs)
  obtain r1 w1 where s: "save_data_obj K self c w = (r1, w1)"
    by (cases "save_data_obj K self c w")
  with Cons.prems have o: "ident (objs w1 x) \<noteq> None"
    by (auto dest: save_data_obj_keeps_ids)
  show ?case
  proof (cases r1)
    case (Inl e)
    with s Cons.prems o show ?thesis by simp
  next
    case (Inr v)
    with s Cons.prems have "save_each K self cs w1 = (r, w')" by simp
    with Cons.IH o show ?thesis by simp
  qed
qed

text \<open>When the loop returns, every object of the list holds an identifier.\<close>

lemma save_each_ids:
  "save_each K self cs w = (Inr u, w') \<Longrightarrow> c \<in> set cs \<Longrightarrow> ident (objs w' c) \<noteq> None"
proof (induction cs arbitrary: w)
  case Nil
  then show ?case by simp
next
  case (Cons c' cs)
  obtain r1 w1 where s: "save_data_obj K self c' w = (r1, w1)"
    by (cases "save_data_obj K self c' w")
  with Cons.prems obtain v where r1: "r1 = Inr v"
    and rest: "save_each K self cs w1 = (Inr u, w')"
    by (cases r1) auto
  show ?case
  proof (cases "c = c'")
    case True
    from s r1 have "ident (objs w1 c') \<noteq> None" by (auto dest: save_data_obj_ident)
    with rest True show ?thesis by (auto dest: save_each_keeps_ids)
  next
    case False
    with Cons.prems have "c \<in> set cs" by simp
    with Cons.IH rest show ?thesis by simp
  qed
qed

lemma save_each_in_order:
  "save_each K self cs w = (Inr u, w') \<Longrightarrow> saved_in_order K self cs w w'"
proof (induction cs arbitrary: w)
  case Nil
  then show ?case by (simp add: in_order_nil)
next
  case (Cons c cs)
  obtain r1 w1 where s: "save_data_obj K self c w = (r1, w1)"
    by (cases "save_data_obj K self c w")
  with Cons.prems obtain v where r1: "r1 = Inr v"
    and rest: "save_each K self cs w1 = (Inr u, w')"
    by (cases r1) auto
  from Cons.IH rest have "saved_in_order K self cs w1 w'" .
  with s r1 show ?case by (auto intro: in_order_cons)
qed

text \<open>The test \<^verbatim>\<open>if obj.data_objects\<close> only skips a loop that would not run.\<close>

lemma save_split:
  "save K self a w =
     (case save_each K self (data_objects (objs w a)) w of
        (Inl e, w1) \<Rightarrow> (Inl e, w1)
      | (Inr u, w1) \<Rightarrow> save_own_row K self a w1)"
  by (cases "data_objects (objs w a)") (simp_all add: save_def)

lemma save_own_row_result:
  assumes "save_own_row K self a w = (Inr r, w')"
  shows "\<exists>d i w2. as_dict K (objs w) a = Inr d
           \<and> add_row K self d (own_table (objs w a)) w = (Inr i, w2) \<and> r = Some i
           \<and> objs w' = (objs w)(a := (objs w a)\<lparr>ident := Some i,
                  backend_name := Some (backend_label (backends w self))\<rparr>)"
  using assms
  by (auto simp: save_own_row_def Let_def set_objs set_frame
      split: sum.splits option.splits prod.splits if_splits
      dest!: add_row_keeps)

subsection \<open>Saving in the example store\<close>

lemmas save_defs = save_def save_own_row_def save_data_obj_def add_row_def already_saved_def
  bound_to_def dir_eq_def contains_def mkdir_if_missing_def write_json_def np_save_def
  put_file_def serializable_def builtin_id_str_def py_str_def own_table_def dict_set_def
  set_id_def set_backend_def set_backend_name_def ends_with_def backend_label_def

lemma str_int_1: "str_int 1 = ''1''"
  by code_simp

lemma ex_save_result:
  "fst (save ex_contract 0 0 (ex_world ''meta'' ''npy'')) = Inr (Some 1)"
  by (simp add: save_defs ex_defs scan_defs int_defs str_int_1 Let_def)

lemma ex_save_returns:
  "save ex_contract 0 0 (ex_world ''meta'' ''npy'')
     = (Inr (Some 1), snd (save ex_contract 0 0 (ex_world ''meta'' ''npy'')))"
  using ex_save_result by (simp add: prod_eq_iff)

lemma ex_save_obj:
  "objs (snd (save ex_contract 0 0 (ex_world ''meta'' ''npy''))) 0 =
     ex_measurement\<lparr>ident := Some 1, backend_name := Some ''DirBackend(data)''\<rparr>"
  by (simp add: save_defs ex_defs scan_defs int_defs str_int_1 Let_def)

text \<open>
  The series is saved first: its table gets the metadata file and the payload file,
  and the metadata of the measurement, written afterwards, holds the identifier the
  series got.
\<close>

lemma ex_save_series_dir:
  "dirs (snd (save ex_contract 0 0 (ex_world ''meta'' ''npy''))) [''data'', ''series''] =
     Some [(''0_s.meta'', File (Json [])),
           (''<built-in function id>_t.meta'',
              File (Json [(''name'', VStr ''t''), (''data'', VNone),
                          (''first_data_id'', VNone)])),
           (''1_t.npy'', File (Npy (VArray [1, 2, 3])))]"
  by (simp add: save_defs ex_defs scan_defs int_defs str_int_1 Let_def)

lemma ex_save_measurement_dir:
  "dirs (snd (save ex_contract 0 0 (ex_world ''meta'' ''npy''))) [''data'', ''measurement''] =
     Some [(''0_alpha.meta'', File (Json [])),
           (''<built-in function id>_beta.meta'',
              File (Json [(''name'', VStr ''beta''), (''data'', VNone),
                          (''first_data_id'', VInt 1)]))]"
  by (simp add: save_defs ex_defs scan_defs int_defs str_int_1 Let_def)

text \<open>
  Claim C4: saving a data object that is already bound to this store, when the table
  of the store already contains its identifier, returns that identifier and writes
  nothing, so that \<^verbatim>\<open>save_data_obj\<close> called twice on the same object through the same
  store gives the same identifier both times and no second row. The code does not
  get there for an object it has just saved. In the example store the first save of
  the series returns 1 and binds the series to the store under 1; it also writes the
  metadata file named after the built-in function (C1), and in the second save the
  scan behind \<^verbatim>\<open>contains\<close> raises \<^verbatim>\<open>ValueError\<close> on that file (C3).
\<close>

theorem save_data_obj_twice_raises:
  "fst (save_data_obj ex_contract 0 1 (ex_world ''meta'' ''npy'')) = Inr (Some 1)
   \<and> ident (objs (snd (save_data_obj ex_contract 0 1 (ex_world ''meta'' ''npy''))) 1) = Some 1
   \<and> bound_to (snd (save_data_obj ex_contract 0 1 (ex_world ''meta'' ''npy'')))
       (backend (objs (snd (save_data_obj ex_contract 0 1 (ex_world ''meta'' ''npy''))) 1)) 0
       = Inr True
   \<and> fst (save_data_obj ex_contract 0 1
       (snd (save_data_obj ex_contract 0 1 (ex_world ''meta'' ''npy'')))) = Inl ValueError"
  by (simp add: save_defs ex_defs scan_defs int_defs str_int_1 Let_def)

subsection \<open>The order of a save\<close>

lemma saved_in_order_iff:
  "saved_in_order K self cs w w1 \<longleftrightarrow> save_each K self cs w = (Inr (), w1)"
proof
  assume "saved_in_order K self cs w w1"
  then show "save_each K self cs w = (Inr (), w1)"
    by (induction rule: saved_in_order.induct) simp_all
next
  assume "save_each K self cs w = (Inr (), w1)"
  then show "saved_in_order K self cs w w1" by (rule save_each_in_order)
qed

text \<open>The saves of a list, in its order, lead to one world only.\<close>

lemma saved_in_order_unique:
  "saved_in_order K self cs w w1 \<Longrightarrow> saved_in_order K self cs w w2 \<Longrightarrow> w1 = w2"
  by (simp add: saved_in_order_iff)

lemma save_own_row_world:
  assumes "save_own_row K self a w = (Inr r, w')"
  shows "\<exists>d i w2. as_dict K (objs w) a = Inr d
           \<and> add_row K self d (own_table (objs w a)) w = (Inr i, w2) \<and> r = Some i
           \<and> w' = w2\<lparr>objs := (objs w2)(a := (objs w2 a)\<lparr>ident := Some i,
                  backend_name := Some (backend_label (backends w2 self))\<rparr>)\<rparr>"
  using assms
  by (auto simp: save_own_row_def Let_def set_id_def set_backend_name_def
      split: sum.splits option.splits prod.splits if_splits)

text \<open>A save of a data object that raises ends the save of the parent there.\<close>

lemma save_raises_with_data_object:
  "save_each K self (data_objects (objs w a)) w = (Inl e, w1) \<Longrightarrow> save K self a w = (Inl e, w1)"
  by (simp add: save_split)

text \<open>
  Claim C5: \<^verbatim>\<open>save(obj)\<close> first saves each owned data object by \<^verbatim>\<open>save_data_obj\<close>, in
  the order of the collection, before the metadata of the parent is serialized and
  written, so that each child holds its identifier before the metadata file of the
  parent exists. Whenever \<^verbatim>\<open>save\<close> returns the world \<open>w'\<close>, there is a world \<open>w1\<close> that
  the saves of the data objects, one after the other in the order of the list, lead
  to; in \<open>w1\<close> every data object holds an identifier; it is the objects of \<open>w1\<close> that
  \<^verbatim>\<open>as_dict\<close> serializes and the directories of \<open>w1\<close> that \<^verbatim>\<open>add_row\<close> writes the row of
  the parent to; and \<open>w'\<close> is the world \<^verbatim>\<open>add_row\<close> leaves, with the identifier and the
  backend name of the parent set.
\<close>

theorem save_saves_data_objects_first:
  assumes "save K self a w = (Inr r, w')"
  shows "\<exists>w1 d i w2. saved_in_order K self (data_objects (objs w a)) w w1
     \<and> list_all (\<lambda>c. ident (objs w1 c) \<noteq> None) (data_objects (objs w a))
     \<and> as_dict K (objs w1) a = Inr d
     \<and> add_row K self d (own_table (objs w1 a)) w1 = (Inr i, w2)
     \<and> r = Some i
     \<and> w' = w2\<lparr>objs := (objs w2)(a := (objs w2 a)\<lparr>ident := Some i,
                  backend_name := Some (backend_label (backends w2 self))\<rparr>)\<rparr>"
proof -
  obtain r1 w1 where e: "save_each K self (data_objects (objs w a)) w = (r1, w1)"
    by (cases "save_each K self (data_objects (objs w a)) w")
  with assms obtain u where r1: "r1 = Inr u"
    and own: "save_own_row K self a w1 = (Inr r, w')"
    by (cases r1) (auto simp: save_split)
  from e r1 have "saved_in_order K self (data_objects (objs w a)) w w1"
    by (auto intro: save_each_in_order)
  moreover from e r1
  have "list_all (\<lambda>c. ident (objs w1 c) \<noteq> None) (data_objects (objs w a))"
    by (auto simp: list_all_iff dest: save_each_ids)
  moreover from own obtain d i w2 where "as_dict K (objs w1) a = Inr d"
    "add_row K self d (own_table (objs w1 a)) w1 = (Inr i, w2)" "r = Some i"
    "w' = w2\<lparr>objs := (objs w2)(a := (objs w2 a)\<lparr>ident := Some i,
                  backend_name := Some (backend_label (backends w2 self))\<rparr>)\<rparr>"
    using save_own_row_world by blast
  ultimately show ?thesis by blast
qed

lemmas ex2_defs = ex_world2_def ex_values_def ex_defs

lemma ex2_save_result:
  "fst (save ex_contract 0 0 ex_world2) = Inr (Some 1)"
  by (simp add: save_defs ex2_defs scan_defs int_defs str_int_1 Let_def)

lemma ex2_save_returns:
  "save ex_contract 0 0 ex_world2 = (Inr (Some 1), snd (save ex_contract 0 0 ex_world2))"
  using ex2_save_result by (simp add: prod_eq_iff)

theorem save_saves_data_objects_first_witness:
  "save ex_contract 0 0 ex_world2 = (Inr (Some 1), snd (save ex_contract 0 0 ex_world2))
   \<and> (\<exists>w1 d w2. saved_in_order ex_contract 0 [1, 2] ex_world2 w1
         \<and> ident (objs w1 1) \<noteq> None \<and> ident (objs w1 2) \<noteq> None
         \<and> as_dict ex_contract (objs w1) 0 = Inr d
         \<and> add_row ex_contract 0 d (own_table (objs w1 0)) w1 = (Inr 1, w2)
         \<and> snd (save ex_contract 0 0 ex_world2)
             = w2\<lparr>objs := (objs w2)(0 := (objs w2 0)\<lparr>ident := Some 1,
                  backend_name := Some (backend_label (backends w2 0))\<rparr>)\<rparr>)"
proof -
  have d: "data_objects (objs ex_world2 0) = [1, 2]"
    by (simp add: ex2_defs)
  from save_saves_data_objects_first [OF ex2_save_returns] d ex2_save_returns
  show ?thesis by auto
qed

text \<open>
  The order shows in what the save of the second example leaves. The value series
  refers to the time series, and its metadata, written second, holds the identifier
  the time series got first; the metadata of the measurement, written last, holds it
  too. Had the value series been saved before the time series, its metadata would
  hold no identifier.
\<close>

lemma ex2_values_dir:
  "dirs (snd (save ex_contract 0 0 ex_world2)) [''data'', ''values''] =
     Some [(''0_u.meta'', File (Json [])),
           (''<built-in function id>_v.meta'',
              File (Json [(''name'', VStr ''v''), (''data'', VNone),
                          (''first_data_id'', VInt 1)])),
           (''1_v.npy'', File (Npy (VArray [1, 2, 3])))]"
  by (simp add: save_defs ex2_defs scan_defs int_defs str_int_1 Let_def)

lemma ex2_measurement_dir:
  "dirs (snd (save ex_contract 0 0 ex_world2)) [''data'', ''measurement''] =
     Some [(''0_alpha.meta'', File (Json [])),
           (''<built-in function id>_beta.meta'',
              File (Json [(''name'', VStr ''beta''), (''data'', VNone),
                          (''first_data_id'', VInt 1)]))]"
  by (simp add: save_defs ex2_defs scan_defs int_defs str_int_1 Let_def)

lemma ex2_other_order:
  "dirs (snd (save_each ex_contract 0 [2, 1] ex_world2)) [''data'', ''values''] =
     Some [(''0_u.meta'', File (Json [])),
           (''<built-in function id>_v.meta'',
              File (Json [(''name'', VStr ''v''), (''data'', VNone),
                          (''first_data_id'', VNone)])),
           (''1_v.npy'', File (Npy (VArray [1, 2, 3])))]"
  by (simp add: save_defs ex2_defs scan_defs int_defs str_int_1 Let_def)

subsection \<open>The binding a save records\<close>

text \<open>
  Claim C7: after \<^verbatim>\<open>save(obj)\<close> returns the identifier \<open>i\<close>, the object records \<open>i\<close> and
  a reference to the store that assigned it, and that recorded binding compares equal
  to the store. The code records the name of the store, not a reference:
  \<^verbatim>\<open>obj.backend_name = self.name\<close>. In the example store the measurement has no backend
  before the save and none after it, and \<^verbatim>\<open>obj.backend == self\<close> is false.
\<close>

theorem save_leaves_backend_unset:
  "fst (save ex_contract 0 0 (ex_world ''meta'' ''npy'')) = Inr (Some 1)
   \<and> backend (objs (snd (save ex_contract 0 0 (ex_world ''meta'' ''npy''))) 0) = None
   \<and> bound_to (snd (save ex_contract 0 0 (ex_world ''meta'' ''npy'')))
        (backend (objs (snd (save ex_contract 0 0 (ex_world ''meta'' ''npy''))) 0)) 0
       = Inr False"
  by (simp add: ex_save_result ex_save_obj bound_to_def ex_measurement_def)

text \<open>
  Claim C7 as amended: after \<^verbatim>\<open>save(obj)\<close> returns the identifier \<open>i\<close>, the object
  records \<open>i\<close> as its identifier and the name of the store, \<^verbatim>\<open>DirBackend(<directory>)\<close>,
  as its backend name; \<^verbatim>\<open>save\<close> assigns no backend reference, so an object that is not
  one of its own data objects has the backend reference it had before.
\<close>

theorem save_records_id_and_backend_name:
  assumes "save K self a w = (Inr r, w')"
  shows "\<exists>i. r = Some i \<and> ident (objs w' a) = Some i
     \<and> backend_name (objs w' a) = Some (backend_label (backends w self))
     \<and> (a \<notin> set (data_objects (objs w a)) \<longrightarrow> backend (objs w' a) = backend (objs w a))"
proof -
  obtain r1 w1 where e: "save_each K self (data_objects (objs w a)) w = (r1, w1)"
    by (cases "save_each K self (data_objects (objs w a)) w")
  with assms obtain u where r1: "r1 = Inr u"
    and own: "save_own_row K self a w1 = (Inr r, w')"
    by (cases r1) (auto simp: save_split)
  from own obtain i where i: "r = Some i"
    and o: "objs w' = (objs w1)(a := (objs w1 a)\<lparr>ident := Some i,
                  backend_name := Some (backend_label (backends w1 self))\<rparr>)"
    using save_own_row_result by blast
  from e have b: "backends w1 = backends w" by (rule save_each_backends)
  from e have "a \<notin> set (data_objects (objs w a)) \<Longrightarrow> objs w1 a = objs w a"
    by (rule save_each_other)
  with i o b show ?thesis by simp
qed

theorem save_records_id_and_backend_name_witness:
  "save ex_contract 0 0 (ex_world ''meta'' ''npy'')
     = (Inr (Some 1), snd (save ex_contract 0 0 (ex_world ''meta'' ''npy'')))
   \<and> ident (objs (snd (save ex_contract 0 0 (ex_world ''meta'' ''npy''))) 0) = Some 1
   \<and> backend_name (objs (snd (save ex_contract 0 0 (ex_world ''meta'' ''npy''))) 0)
       = Some ''DirBackend(data)''
   \<and> backend (objs (snd (save ex_contract 0 0 (ex_world ''meta'' ''npy''))) 0) = None"
proof -
  have d: "0 \<notin> set (data_objects (objs (ex_world ''meta'' ''npy'') 0))"
    "backend (objs (ex_world ''meta'' ''npy'') 0) = None"
    "backend_label (backends (ex_world ''meta'' ''npy'') 0) = ''DirBackend(data)''"
    by (simp_all add: ex_defs backend_label_def)
  from save_records_id_and_backend_name [OF ex_save_returns] d ex_save_returns
  show ?thesis by auto
qed

end
